theory Spec2Isabelle
  imports Complex_Main
begin

section \<open>Shield text layout and drawing (shield_text module of src/src/shieldtest.js)\<close>

text \<open>
  The module lays out a route reference inside a shield and draws it on a canvas
  context. Its numbers are JavaScript doubles; they are idealised here as real
  numbers, so rounding, overflow and the non-finite values \<open>Infinity\<close> and \<open>NaN\<close>
  are outside the model. Where the source divides by a quantity that may be zero
  (the constraint functions), HOL's \<open>x / 0 = 0\<close> is not what JavaScript computes;
  the properties below either exclude such a division by their hypotheses or
  compare two computations that perform the same division.
\<close>

subsection \<open>Data\<close>

text \<open>\<open>{width, height}\<close> objects.\<close>

record bounds =
  width :: real
  height :: real

text \<open>The object \<open>{scale}\<close> that a constraint function returns.\<close>

record text_constraint =
  scale :: real

text \<open>
  \<open>padding\<close>: every side may be missing (\<open>undefined\<close>), which is \<open>None\<close>; the empty
  object \<open>{}\<close> has all four missing.
\<close>

record pad =
  pad_top :: "real option"
  pad_bottom :: "real option"
  pad_left :: "real option"
  pad_right :: "real option"

text \<open>The empty object \<open>{}\<close> as a padding.\<close>

definition noPadding :: pad where
  "noPadding = \<lparr>pad_top = None, pad_bottom = None, pad_left = None, pad_right = None\<rparr>"

text \<open>The layout object \<open>{xBaseline, yBaseline, fontPx}\<close>.\<close>

record text_layout =
  xBaseline :: real
  yBaseline :: real
  fontPx :: real

text \<open>
  A shield definition as far as this module reads it: \<open>padding\<close>,
  \<open>textLayoutConstraint\<close> and \<open>maxFontSize\<close>, each of which may be absent.
\<close>

record shield_def =
  padding :: "pad option"
  textLayoutConstraint :: "(bounds \<Rightarrow> bounds \<Rightarrow> text_constraint) option"
  maxFontSize :: "real option"

text \<open>
  The names the module imports from \<open>screen_gfx.js\<close>, \<open>shield_defs.js\<close> and
  \<open>constants/color.js\<close>, none of which is among the sources: they are parameters.
  \<open>pixelRatio\<close> is the value of \<open>Gfx.getPixelRatio()\<close>, which is also the module's
  constant \<open>PXR\<close>.
\<close>

record env =
  pixelRatio :: real
  fontSizeThreshold :: real
  shieldFont :: "real \<Rightarrow> string"
  bannerSizeH :: real
  bannerPadding :: real
  topPadding :: real
  backgroundFill :: string

subsection \<open>Constraint functions\<close>

definition ellipseScale :: "bounds \<Rightarrow> bounds \<Rightarrow> real" where
  "ellipseScale spaceBounds textBounds =
     (let a = width spaceBounds;
          b = height spaceBounds;
          x0 = width textBounds;
          y0 = height textBounds
      in (a * b) / sqrt (a * a * y0 * y0 + b * b * x0 * x0))"

definition ellipseTextConstraint :: "bounds \<Rightarrow> bounds \<Rightarrow> text_constraint" where
  "ellipseTextConstraint spaceBounds textBounds =
     \<lparr>scale = ellipseScale spaceBounds textBounds\<rparr>"

definition southHalfellipseTextConstraint :: "bounds \<Rightarrow> bounds \<Rightarrow> text_constraint" where
  "southHalfellipseTextConstraint spaceBounds textBounds =
     \<lparr>scale = ellipseScale spaceBounds
        \<lparr>width = height textBounds, height = width textBounds / 2\<rparr>\<rparr>"

definition rectTextConstraint :: "bounds \<Rightarrow> bounds \<Rightarrow> text_constraint" where
  "rectTextConstraint spaceBounds textBounds =
     (let scaleHeight = height spaceBounds / height textBounds;
          scaleWidth = width spaceBounds / width textBounds
      in \<lparr>scale = min scaleWidth scaleHeight\<rparr>)"

definition roundedRectTextConstraint :: "bounds \<Rightarrow> bounds \<Rightarrow> real \<Rightarrow> text_constraint" where
  "roundedRectTextConstraint spaceBounds textBounds radius =
     rectTextConstraint
       \<lparr>width = width spaceBounds - radius * (2 - sqrt 2),
        height = height spaceBounds - radius * (2 - sqrt 2)\<rparr>
       textBounds"

subsection \<open>Estimated text metrics\<close>

text \<open>The \<open>switch\<close> of \<open>widthOfChar\<close>, its cases in the order of the source.\<close>

definition widthOfChar :: "char \<Rightarrow> real" where
  "widthOfChar c =
     (if c \<in> set ''I-'' then 1 / 3
      else if c \<in> set ''1234567890'' then 1 / 2.75
      else if c \<in> set ''BCEHKLMNOR'' then 1 / 1.9
      else if c = CHR ''W'' then 1 / 1.5
      else 1 / 2.2)"

text \<open>
  \<open>widthOfText\<close>: \<open>len\<close> starts at \<open>(text.length - 1) * 1/12\<close>, which is negative for
  the empty string, and the loop adds the width of every character in turn.
\<close>

definition widthOfText :: "string \<Rightarrow> real \<Rightarrow> real" where
  "widthOfText text fontSize =
     fontSize * foldl (\<lambda>len c. len + widthOfChar c)
                  ((real_of_int (int (length text) - 1)) * 1 / 12) text"

definition emHeightForFontSize :: "real \<Rightarrow> real" where
  "emHeightForFontSize fontSize = fontSize * 3 / 4"

subsection \<open>Layout\<close>

text \<open>
  \<open>padding.side * PXR || 0\<close>: a missing side gives \<open>NaN\<close>, which is falsy, as is a
  product that is zero; both give \<open>0\<close>.
\<close>

definition scaledPad :: "real option \<Rightarrow> real \<Rightarrow> real" where
  "scaledPad side PXR =
     (case side of
        None \<Rightarrow> 0
      | Some v \<Rightarrow> (if v * PXR = 0 then 0 else v * PXR))"

text \<open>\<open>Math.round\<close> rounds to the nearest integer, a half upwards.\<close>

definition mathRound :: "real \<Rightarrow> real" where
  "mathRound x = real_of_int \<lfloor>x + 1 / 2\<rfloor>"

text \<open>
  \<open>layoutShieldText\<close>. The temporary canvas that the source creates and never uses
  is left out.
\<close>

definition layoutShieldText ::
  "env \<Rightarrow> string \<Rightarrow> pad \<Rightarrow> bounds \<Rightarrow> (bounds \<Rightarrow> bounds \<Rightarrow> text_constraint) \<Rightarrow> real
     \<Rightarrow> text_layout" where
  "layoutShieldText E text padding' bounds' textLayoutFunc maxFontSize' =
     (let PXR = pixelRatio E;
          padTop = scaledPad (pad_top padding') PXR;
          padBot = scaledPad (pad_bottom padding') PXR;
          padLeft = scaledPad (pad_left padding') PXR;
          padRight = scaledPad (pad_right padding') PXR;
          maxFont = maxFontSize' * PXR;
          fontSize0 = fontSizeThreshold E;
          textWidth = widthOfText text fontSize0;
          textHeight0 = emHeightForFontSize fontSize0;
          availHeight = height bounds' - padTop - padBot;
          availWidth = width bounds' - padLeft - padRight;
          xBase = padLeft + availWidth / 2;
          textConstraint = textLayoutFunc
            \<lparr>width = availWidth, height = availHeight\<rparr>
            \<lparr>width = textWidth, height = textHeight0\<rparr>;
          fontSize = min maxFont (fontSizeThreshold E * scale textConstraint);
          textHeight = emHeightForFontSize fontSize;
          yBase = mathRound (padTop + (availHeight - textHeight) / 2 + textHeight)
      in \<lparr>xBaseline = xBase, yBaseline = yBase, fontPx = fontSize\<rparr>)"

definition defaultDefForLayout :: shield_def where
  "defaultDefForLayout =
     \<lparr>padding = Some \<lparr>pad_top = Some 0, pad_bottom = Some 0,
                        pad_left = Some 0, pad_right = Some 0\<rparr>,
      textLayoutConstraint = None,
      maxFontSize = None\<rparr>"

text \<open>
  \<open>layoutShieldTextFromDef\<close>: \<open>def == null\<close> holds for \<open>null\<close> and \<open>undefined\<close>,
  both \<open>None\<close> here; \<open>def.padding || {}\<close> replaces a missing padding by the empty
  object.
\<close>

definition layoutShieldTextFromDef ::
  "env \<Rightarrow> string \<Rightarrow> shield_def option \<Rightarrow> bounds \<Rightarrow> text_layout" where
  "layoutShieldTextFromDef E text def bounds' =
     (let def1 = (case def of None \<Rightarrow> defaultDefForLayout | Some d \<Rightarrow> d);
          padding' = (case padding def1 of None \<Rightarrow> noPadding | Some p \<Rightarrow> p);
          textLayoutFunc = (case textLayoutConstraint def1 of
                              None \<Rightarrow> rectTextConstraint
                            | Some f \<Rightarrow> f);
          maxFontSize' = (case maxFontSize def1 of
                            None \<Rightarrow> 14
                          | Some m \<Rightarrow> min 14 m)
      in layoutShieldText E text padding' bounds' textLayoutFunc maxFontSize')"

subsection \<open>The canvas context\<close>

text \<open>
  The module draws on the 2D context of a canvas. Of that context the model keeps
  the properties the module assigns, the size of its canvas, and the list of the
  text drawing calls made so far, each with the properties in force when it was
  made. \<open>fillStyle\<close>, \<open>strokeStyle\<close> and \<open>shadowColor\<close> hold colours, written as the
  strings that denote them; the stroke style is taken to be a colour, as is
  \<open>Color.backgroundFill\<close>, and the alignment, baseline and font values that the
  module assigns are taken to be valid, so that these assignments take effect.
\<close>

record ctx_props =
  textAlign :: string
  textBaseline :: string
  font :: string
  fillStyle :: string
  strokeStyle :: string
  shadowColor :: string
  shadowBlur :: real
  lineWidth :: real

datatype draw_call =
    FillText string real real
  | StrokeText string real real

record gfx_ctx = ctx_props +
  canvas :: bounds
  calls :: "(draw_call \<times> ctx_props) list"

text \<open>
  The setters of a 2D context, as the HTML Standard defines them. An assignment to
  \<open>shadowColor\<close> of a value that does not parse as a colour is ignored; \<open>null\<close>
  (\<open>None\<close>) is such a value. An assignment to \<open>shadowBlur\<close> converts the value to
  a number, \<open>null\<close> to 0, and is ignored when the number is negative. An
  assignment to \<open>lineWidth\<close> of a number that is not positive is ignored.
\<close>

definition setShadowColor :: "string option \<Rightarrow> gfx_ctx \<Rightarrow> gfx_ctx" where
  "setShadowColor v ctx =
     (case v of
        None \<Rightarrow> ctx
      | Some c \<Rightarrow> ctx\<lparr>shadowColor := c\<rparr>)"

definition setShadowBlur :: "real option \<Rightarrow> gfx_ctx \<Rightarrow> gfx_ctx" where
  "setShadowBlur v ctx =
     (let n = (case v of None \<Rightarrow> 0 | Some x \<Rightarrow> x)
      in if n < 0 then ctx else ctx\<lparr>shadowBlur := n\<rparr>)"

definition setLineWidth :: "real \<Rightarrow> gfx_ctx \<Rightarrow> gfx_ctx" where
  "setLineWidth v ctx = (if v \<le> 0 then ctx else ctx\<lparr>lineWidth := v\<rparr>)"

definition fillText :: "string \<Rightarrow> real \<Rightarrow> real \<Rightarrow> gfx_ctx \<Rightarrow> gfx_ctx" where
  "fillText text x y ctx =
     ctx\<lparr>calls := calls ctx @ [(FillText text x y, ctx_props.truncate ctx)]\<rparr>"

definition strokeText :: "string \<Rightarrow> real \<Rightarrow> real \<Rightarrow> gfx_ctx \<Rightarrow> gfx_ctx" where
  "strokeText text x y ctx =
     ctx\<lparr>calls := calls ctx @ [(StrokeText text x y, ctx_props.truncate ctx)]\<rparr>"

text \<open>The \<open>y\<close> argument of a drawing call.\<close>

fun callY :: "draw_call \<Rightarrow> real" where
  "callY (FillText text x y) = y"
| "callY (StrokeText text x y) = y"

subsection \<open>Drawing\<close>

definition drawShieldText :: "env \<Rightarrow> gfx_ctx \<Rightarrow> string \<Rightarrow> text_layout \<Rightarrow> gfx_ctx" where
  "drawShieldText E ctx text textLayout =
     (let ctx1 = ctx\<lparr>textAlign := ''center''\<rparr>;
          ctx2 = ctx1\<lparr>textBaseline := ''alphabetic''\<rparr>;
          ctx3 = ctx2\<lparr>font := shieldFont E (fontPx textLayout)\<rparr>
      in fillText text (xBaseline textLayout) (yBaseline textLayout) ctx3)"

definition drawShieldHaloText :: "env \<Rightarrow> gfx_ctx \<Rightarrow> string \<Rightarrow> text_layout \<Rightarrow> gfx_ctx" where
  "drawShieldHaloText E ctx text textLayout =
     (let ctx1 = ctx\<lparr>textAlign := ''center''\<rparr>;
          ctx2 = ctx1\<lparr>textBaseline := ''alphabetic''\<rparr>;
          ctx3 = ctx2\<lparr>font := shieldFont E (fontPx textLayout)\<rparr>;
          ctx4 = setShadowColor (Some (strokeStyle ctx3)) ctx3;
          ctx5 = setShadowBlur (Some 0) ctx4;
          ctx6 = setLineWidth (2 * pixelRatio E) ctx5;
          ctx7 = strokeText text (xBaseline textLayout) (yBaseline textLayout) ctx6;
          ctx8 = setShadowColor None ctx7
      in setShadowBlur None ctx8)"

text \<open>
  Both banner routines lay the text out, with no definition, in an area as wide as
  the canvas and \<open>bannerSizeH - bannerPadding\<close> high.
\<close>

definition drawBannerText :: "env \<Rightarrow> gfx_ctx \<Rightarrow> string \<Rightarrow> real \<Rightarrow> gfx_ctx" where
  "drawBannerText E ctx text bannerIndex =
     (let textLayout = layoutShieldTextFromDef E text None
            \<lparr>width = width (canvas ctx), height = bannerSizeH E - bannerPadding E\<rparr>;
          ctx1 = ctx\<lparr>fillStyle := ''black''\<rparr>;
          ctx2 = ctx1\<lparr>font := shieldFont E (fontPx textLayout)\<rparr>;
          ctx3 = ctx2\<lparr>textBaseline := ''alphabetic''\<rparr>;
          ctx4 = ctx3\<lparr>textAlign := ''center''\<rparr>
      in fillText text (xBaseline textLayout)
           (yBaseline textLayout + bannerIndex * bannerSizeH E - bannerPadding E
              + topPadding E)
           ctx4)"

definition drawBannerHaloText :: "env \<Rightarrow> gfx_ctx \<Rightarrow> string \<Rightarrow> real \<Rightarrow> gfx_ctx" where
  "drawBannerHaloText E ctx text bannerIndex =
     (let textLayout = layoutShieldTextFromDef E text None
            \<lparr>width = width (canvas ctx), height = bannerSizeH E - bannerPadding E\<rparr>;
          ctx1 = setShadowColor (Some (backgroundFill E)) ctx;
          ctx2 = ctx1\<lparr>strokeStyle := shadowColor ctx1\<rparr>;
          ctx3 = ctx2\<lparr>font := shieldFont E (fontPx textLayout)\<rparr>;
          ctx4 = ctx3\<lparr>textBaseline := ''alphabetic''\<rparr>;
          ctx5 = ctx4\<lparr>textAlign := ''center''\<rparr>;
          ctx6 = setShadowBlur (Some 0) ctx5;
          ctx7 = setLineWidth (2 * pixelRatio E) ctx6;
          ctx8 = strokeText text (xBaseline textLayout)
                   (yBaseline textLayout + bannerIndex * bannerSizeH E - bannerPadding E
                      + topPadding E)
                   ctx7;
          ctx9 = setShadowColor None ctx8
      in setShadowBlur None ctx9)"

subsection \<open>Concrete inputs\<close>

text \<open>
  An environment with pixel ratio 1 and reference font size 12; the properties
  below are evaluated on it.
\<close>

definition env1 :: env where
  "env1 = \<lparr>pixelRatio = 1, fontSizeThreshold = 12, shieldFont = (\<lambda>size. ''px''),
            bannerSizeH = 8, bannerPadding = 1, topPadding = 1,
            backgroundFill = ''white''\<rparr>"

text \<open>
  A context in the state a new canvas of 20 by 20 has, but for a white stroke
  style, and a layout on it.
\<close>

definition ctx0 :: gfx_ctx where
  "ctx0 = \<lparr>textAlign = ''start'', textBaseline = ''alphabetic'',
            font = ''10px sans-serif'', fillStyle = ''#000000'', strokeStyle = ''#ffffff'',
            shadowColor = ''rgba(0, 0, 0, 0)'', shadowBlur = 0, lineWidth = 1,
            canvas = \<lparr>width = 20, height = 20\<rparr>, calls = []\<rparr>"

definition layout0 :: text_layout where
  "layout0 = \<lparr>xBaseline = 10, yBaseline = 14, fontPx = 12\<rparr>"

section \<open>Properties\<close>

subsection \<open>The font size of a layout\<close>

lemma layoutShieldText_fontPx:
  "fontPx (layoutShieldText E text p b f m) =
     min (m * pixelRatio E)
       (fontSizeThreshold E *
          scale (f \<lparr>width = width b - scaledPad (pad_left p) (pixelRatio E)
                            - scaledPad (pad_right p) (pixelRatio E),
                     height = height b - scaledPad (pad_top p) (pixelRatio E)
                            - scaledPad (pad_bottom p) (pixelRatio E)\<rparr>
                    \<lparr>width = widthOfText text (fontSizeThreshold E),
                     height = emHeightForFontSize (fontSizeThreshold E)\<rparr>))"
  by (simp add: layoutShieldText_def Let_def)

text \<open>
  C2. For every text, padding, bounds, constraint function and maximum font size,
  the font size of the layout is the smaller of the maximum font size times the
  pixel ratio and the reference font size times the scale that the constraint
  function returns on the padded bounds and the estimated text bounds; so it never
  exceeds the scaled maximum font size.
\<close>

theorem layoutShieldText_fontPx_ceiling:
  "fontPx (layoutShieldText E text p b f m) =
     min (m * pixelRatio E)
       (fontSizeThreshold E *
          scale (f \<lparr>width = width b - scaledPad (pad_left p) (pixelRatio E)
                            - scaledPad (pad_right p) (pixelRatio E),
                     height = height b - scaledPad (pad_top p) (pixelRatio E)
                            - scaledPad (pad_bottom p) (pixelRatio E)\<rparr>
                    \<lparr>width = widthOfText text (fontSizeThreshold E),
                     height = emHeightForFontSize (fontSizeThreshold E)\<rparr>))
   \<and> fontPx (layoutShieldText E text p b f m) \<le> m * pixelRatio E"
  by (simp add: layoutShieldText_fontPx)

text \<open>
  C1 as stated fails: with reference font size 12, maximum font size 14 and pixel
  ratio 1, the text \<open>1\<close> in an area of 40 by 40 fits unscaled (the rectangle
  constraint returns a scale of at least 1), and its font size is 14, not
  \<open>min 14 12\<close>.
\<close>

theorem layoutShieldText_grows_beyond_reference:
  "1 \<le> scale (rectTextConstraint \<lparr>width = 40, height = 40\<rparr>
            \<lparr>width = widthOfText ''1'' (fontSizeThreshold env1),
             height = emHeightForFontSize (fontSizeThreshold env1)\<rparr>)
   \<and> fontPx (layoutShieldText env1 ''1'' noPadding \<lparr>width = 40, height = 40\<rparr>
              rectTextConstraint 14) = 14
   \<and> fontPx (layoutShieldText env1 ''1'' noPadding \<lparr>width = 40, height = 40\<rparr>
              rectTextConstraint 14)
       \<noteq> min (14 * pixelRatio env1) (fontSizeThreshold env1)"
  by (simp add: layoutShieldText_fontPx env1_def noPadding_def scaledPad_def
      rectTextConstraint_def widthOfText_def widthOfChar_def emHeightForFontSize_def)

text \<open>
  C1, amended. For every text that fits unscaled (the constraint function returns
  a scale of at least 1) and a reference font size that is not negative, the font
  size of the layout is \<open>min (maxFontSize * PXR) (referenceFontSize * scale)\<close>; it
  is at least \<open>min (maxFontSize * PXR) referenceFontSize\<close> and at most
  \<open>maxFontSize * PXR\<close>, so fitting may grow the text beyond the reference size, up
  to the ceiling; and it equals \<open>min (maxFontSize * PXR) referenceFontSize\<close> exactly
  when the ceiling is not above the reference size, or the reference size is 0,
  or the scale is 1.
\<close>

theorem layoutShieldText_fontPx_fits:
  assumes "1 \<le> scale (f \<lparr>width = width b - scaledPad (pad_left p) (pixelRatio E)
                            - scaledPad (pad_right p) (pixelRatio E),
                     height = height b - scaledPad (pad_top p) (pixelRatio E)
                            - scaledPad (pad_bottom p) (pixelRatio E)\<rparr>
                    \<lparr>width = widthOfText str (fontSizeThreshold E),
                     height = emHeightForFontSize (fontSizeThreshold E)\<rparr>)"
    and "0 \<le> fontSizeThreshold E"
  shows "fontPx (layoutShieldText E str p b f m) =
      min (m * pixelRatio E)
        (fontSizeThreshold E *
          scale (f \<lparr>width = width b - scaledPad (pad_left p) (pixelRatio E)
                            - scaledPad (pad_right p) (pixelRatio E),
                     height = height b - scaledPad (pad_top p) (pixelRatio E)
                            - scaledPad (pad_bottom p) (pixelRatio E)\<rparr>
                    \<lparr>width = widthOfText str (fontSizeThreshold E),
                     height = emHeightForFontSize (fontSizeThreshold E)\<rparr>))
    \<and> min (m * pixelRatio E) (fontSizeThreshold E) \<le> fontPx (layoutShieldText E str p b f m)
    \<and> fontPx (layoutShieldText E str p b f m) \<le> m * pixelRatio E
    \<and> (fontPx (layoutShieldText E str p b f m)
           = min (m * pixelRatio E) (fontSizeThreshold E)
        \<longleftrightarrow> m * pixelRatio E \<le> fontSizeThreshold E
            \<or> fontSizeThreshold E = 0
            \<or> scale (f \<lparr>width = width b - scaledPad (pad_left p) (pixelRatio E)
                            - scaledPad (pad_right p) (pixelRatio E),
                     height = height b - scaledPad (pad_top p) (pixelRatio E)
                            - scaledPad (pad_bottom p) (pixelRatio E)\<rparr>
                    \<lparr>width = widthOfText str (fontSizeThreshold E),
                     height = emHeightForFontSize (fontSizeThreshold E)\<rparr>) = 1)"
proof -
  let ?s = "scale (f \<lparr>width = width b - scaledPad (pad_left p) (pixelRatio E)
                            - scaledPad (pad_right p) (pixelRatio E),
                     height = height b - scaledPad (pad_top p) (pixelRatio E)
                            - scaledPad (pad_bottom p) (pixelRatio E)\<rparr>
                    \<lparr>width = widthOfText str (fontSizeThreshold E),
                     height = emHeightForFontSize (fontSizeThreshold E)\<rparr>)"
  have "fontSizeThreshold E * 1 \<le> fontSizeThreshold E * ?s"
    using assms by (intro mult_left_mono)
  then have grow: "fontSizeThreshold E \<le> fontSizeThreshold E * ?s"
    by simp
  have same: "fontSizeThreshold E * ?s = fontSizeThreshold E
                \<longleftrightarrow> fontSizeThreshold E = 0 \<or> ?s = 1"
    by auto
  have size: "fontPx (layoutShieldText E str p b f m)
                = min (m * pixelRatio E) (fontSizeThreshold E * ?s)"
    by (rule layoutShieldText_fontPx)
  have "min (m * pixelRatio E) (fontSizeThreshold E)
          \<le> min (m * pixelRatio E) (fontSizeThreshold E * ?s)"
    using grow by (simp add: min_def)
  moreover have "min (m * pixelRatio E) (fontSizeThreshold E * ?s) \<le> m * pixelRatio E"
    by simp
  moreover have "min (m * pixelRatio E) (fontSizeThreshold E * ?s)
                   = min (m * pixelRatio E) (fontSizeThreshold E)
        \<longleftrightarrow> m * pixelRatio E \<le> fontSizeThreshold E
            \<or> fontSizeThreshold E = 0 \<or> ?s = 1"
    using grow same by (auto simp add: min_def)
  ultimately show ?thesis
    unfolding size by blast
qed

theorem layoutShieldText_fontPx_fits_witness:
  "1 \<le> scale (rectTextConstraint \<lparr>width = 40, height = 40\<rparr>
            \<lparr>width = widthOfText ''1'' (fontSizeThreshold env1),
             height = emHeightForFontSize (fontSizeThreshold env1)\<rparr>)
   \<and> 0 \<le> fontSizeThreshold env1
   \<and> 10 * pixelRatio env1 \<le> fontSizeThreshold env1
   \<and> fontPx (layoutShieldText env1 ''1'' noPadding \<lparr>width = 40, height = 40\<rparr>
              rectTextConstraint 10)
       = min (10 * pixelRatio env1) (fontSizeThreshold env1)"
proof -
  have fits: "1 \<le> scale (rectTextConstraint
            \<lparr>width = width \<lparr>width = 40, height = 40\<rparr>
                       - scaledPad (pad_left noPadding) (pixelRatio env1)
                       - scaledPad (pad_right noPadding) (pixelRatio env1),
             height = height \<lparr>width = 40, height = 40\<rparr>
                       - scaledPad (pad_top noPadding) (pixelRatio env1)
                       - scaledPad (pad_bottom noPadding) (pixelRatio env1)\<rparr>
            \<lparr>width = widthOfText ''1'' (fontSizeThreshold env1),
             height = emHeightForFontSize (fontSizeThreshold env1)\<rparr>)"
    by (simp add: env1_def noPadding_def scaledPad_def rectTextConstraint_def
        widthOfText_def widthOfChar_def emHeightForFontSize_def)
  have ref: "0 \<le> fontSizeThreshold env1"
    by (simp add: env1_def)
  have ceil: "10 * pixelRatio env1 \<le> fontSizeThreshold env1"
    by (simp add: env1_def)
  from layoutShieldText_fontPx_fits
    [where f = rectTextConstraint and b = "\<lparr>width = 40, height = 40\<rparr>" and p = noPadding
       and E = env1 and str = "''1''" and m = 10] fits ref ceil
  have "fontPx (layoutShieldText env1 ''1'' noPadding \<lparr>width = 40, height = 40\<rparr>
              rectTextConstraint 10)
       = min (10 * pixelRatio env1) (fontSizeThreshold env1)"
    by blast
  moreover have "1 \<le> scale (rectTextConstraint \<lparr>width = 40, height = 40\<rparr>
            \<lparr>width = widthOfText ''1'' (fontSizeThreshold env1),
             height = emHeightForFontSize (fontSizeThreshold env1)\<rparr>)"
    using fits by (simp add: noPadding_def scaledPad_def)
  ultimately show ?thesis
    using ref ceil by blast
qed

subsection \<open>The empty text\<close>

text \<open>
  C10 as stated fails: padding is not excluded, and with a left padding of 20 in
  an area of 10 by 10 the available width is negative, as is the estimated width
  of the empty text, so the rectangle constraint returns a positive scale and the
  font size is positive.
\<close>

theorem layoutShieldText_empty_text_padded:
  "0 < width \<lparr>width = 10, height = 10\<rparr> \<and> 0 < height \<lparr>width = 10, height = 10\<rparr>
   \<and> fontPx (layoutShieldText env1 [] (noPadding\<lparr>pad_left := Some 20\<rparr>)
             \<lparr>width = 10, height = 10\<rparr> rectTextConstraint 14) = 40 / 3
   \<and> \<not> fontPx (layoutShieldText env1 [] (noPadding\<lparr>pad_left := Some 20\<rparr>)
             \<lparr>width = 10, height = 10\<rparr> rectTextConstraint 14) < 0"
  by (simp add: layoutShieldText_fontPx env1_def noPadding_def scaledPad_def
      rectTextConstraint_def widthOfText_def emHeightForFontSize_def)

text \<open>
  C10, amended. For the empty string and every positive font size the estimated
  width is \<open>- fontSize / 12\<close>, which is negative. Hence, with a positive reference
  font size, \<open>layoutShieldText\<close> on the empty text with the rectangle constraint
  returns a layout of negative font size whenever the available width (the width
  of the bounds less the scaled left and right padding) is positive.
\<close>

theorem widthOfText_empty_negative:
  "(0 < fs \<longrightarrow> widthOfText [] fs = - fs / 12 \<and> widthOfText [] fs < 0)
   \<and> (0 < fontSizeThreshold E
        \<and> 0 < width b - scaledPad (pad_left p) (pixelRatio E)
                       - scaledPad (pad_right p) (pixelRatio E)
      \<longrightarrow> fontPx (layoutShieldText E [] p b rectTextConstraint m) < 0)"
proof -
  have w: "widthOfText [] g = - g / 12" for g
    by (simp add: widthOfText_def)
  have "fontPx (layoutShieldText E [] p b rectTextConstraint m) < 0"
    if t: "0 < fontSizeThreshold E"
      and a: "0 < width b - scaledPad (pad_left p) (pixelRatio E)
                          - scaledPad (pad_right p) (pixelRatio E)"
  proof -
    let ?aw = "width b - scaledPad (pad_left p) (pixelRatio E)
                       - scaledPad (pad_right p) (pixelRatio E)"
    let ?ah = "height b - scaledPad (pad_top p) (pixelRatio E)
                        - scaledPad (pad_bottom p) (pixelRatio E)"
    let ?sc = "scale (rectTextConstraint \<lparr>width = ?aw, height = ?ah\<rparr>
                 \<lparr>width = widthOfText [] (fontSizeThreshold E),
                  height = emHeightForFontSize (fontSizeThreshold E)\<rparr>)"
    have "?aw / (- fontSizeThreshold E / 12) < 0"
      using t a by (simp add: divide_neg_pos divide_pos_neg field_simps)
    then have "?sc < 0"
      by (simp add: rectTextConstraint_def Let_def w min_less_iff_disj)
    then have "fontSizeThreshold E * ?sc < 0"
      using t by (simp add: mult_pos_neg)
    then show ?thesis
      by (simp only: layoutShieldText_fontPx min_less_iff_disj) simp
  qed
  with w show ?thesis
    by simp
qed

theorem widthOfText_empty_negative_witness:
  "(0 :: real) < 12 \<and> widthOfText [] 12 = - 1
   \<and> 0 < fontSizeThreshold env1
   \<and> 0 < width \<lparr>width = 10, height = 10\<rparr> - scaledPad (pad_left noPadding) (pixelRatio env1)
            - scaledPad (pad_right noPadding) (pixelRatio env1)
   \<and> fontPx (layoutShieldText env1 [] noPadding \<lparr>width = 10, height = 10\<rparr>
              rectTextConstraint 14) < 0"
proof -
  have ref: "0 < fontSizeThreshold env1"
    by (simp add: env1_def)
  have avail: "0 < width \<lparr>width = 10, height = 10\<rparr>
            - scaledPad (pad_left noPadding) (pixelRatio env1)
            - scaledPad (pad_right noPadding) (pixelRatio env1)"
    by (simp add: noPadding_def scaledPad_def)
  from widthOfText_empty_negative
    [where fs = 12 and E = env1 and b = "\<lparr>width = 10, height = 10\<rparr>" and p = noPadding
       and m = 14] ref avail
  show ?thesis
    by simp
qed

subsection \<open>The constraint functions\<close>

text \<open>
  The ellipse formula does not change when every length is halved, so it may be
  read on the full extents, as the source computes it, or on the half-axes.
\<close>

lemma ellipseScale_half:
  "ellipseScale sb tb =
     (width sb / 2 * (height sb / 2)) /
       sqrt ((width sb / 2)\<^sup>2 * (height tb / 2)\<^sup>2
             + (height sb / 2)\<^sup>2 * (width tb / 2)\<^sup>2)"
proof -
  define S where "S = width sb * width sb * height tb * height tb
                    + height sb * height sb * width tb * width tb"
  have "(width sb / 2)\<^sup>2 * (height tb / 2)\<^sup>2
          + (height sb / 2)\<^sup>2 * (width tb / 2)\<^sup>2 = S / 16"
    by (simp add: S_def power2_eq_square)
  then have "sqrt ((width sb / 2)\<^sup>2 * (height tb / 2)\<^sup>2
                   + (height sb / 2)\<^sup>2 * (width tb / 2)\<^sup>2) = sqrt (S / 16)"
    by (simp only:)
  also have "\<dots> = sqrt S / 4"
    by (simp add: real_sqrt_divide)
  finally have "(width sb / 2 * (height sb / 2)) /
       sqrt ((width sb / 2)\<^sup>2 * (height tb / 2)\<^sup>2
             + (height sb / 2)\<^sup>2 * (width tb / 2)\<^sup>2)
       = (width sb * height sb) / sqrt S"
    by simp
  then show ?thesis
    by (simp only: ellipseScale_def Let_def S_def)
qed

lemma sqrt2_bounds: "1.41421356237 < sqrt 2" "sqrt 2 < 1.41421356238"
  by (rule real_less_rsqrt, simp add: power2_eq_square)
     (rule real_less_lsqrt, simp_all add: power2_eq_square)

lemma ellipse_example:
  "scale (ellipseTextConstraint \<lparr>width = 10, height = 5\<rparr> \<lparr>width = 4, height = 2\<rparr>)
     = 5 * sqrt 2 / 4"
proof -
  have "sqrt 800 = 20 * sqrt 2"
    using real_sqrt_mult [of 400 2] by simp
  moreover have "10 / sqrt 2 = 5 * sqrt 2"
    by (simp add: field_simps)
  ultimately show ?thesis
    by (simp add: ellipseTextConstraint_def ellipseScale_def)
qed

lemma ellipse_example_literal:
  "\<bar>scale (ellipseTextConstraint \<lparr>width = 10, height = 5\<rparr> \<lparr>width = 4, height = 2\<rparr>)
     - 1.767766952966\<bar> < 1 / 10 ^ 9"
proof -
  have "1.41421356237 < sqrt 2" "sqrt 2 < 1.41421356238"
    by (rule sqrt2_bounds)+
  then have "- (1 / 10 ^ 9) < 5 * sqrt 2 / 4 - 1.767766952966"
    and "5 * sqrt 2 / 4 - 1.767766952966 < 1 / 10 ^ 9"
    by simp_all
  then show ?thesis
    unfolding ellipse_example by (simp only: abs_less_iff) simp
qed

text \<open>
  C3. The ellipse constraint function returns \<open>(a * b) / sqrt (a\<^sup>2 * y0\<^sup>2 + b\<^sup>2 * x0\<^sup>2)\<close>
  for the half-axes \<open>a\<close>, \<open>b\<close> of the space and the half-extents \<open>x0\<close>, \<open>y0\<close> of
  the text. For a space of 10 by 5 and a text of 4 by 2 it returns
  \<open>50 / sqrt (100 * 4 + 25 * 16)\<close>, which is within \<open>10\<^sup>-\<^sup>9\<close> of 1.767766952966.
\<close>

theorem ellipseTextConstraint_formula:
  "scale (ellipseTextConstraint sb tb) =
     (let a = width sb / 2; b = height sb / 2; x0 = width tb / 2; y0 = height tb / 2
      in (a * b) / sqrt (a\<^sup>2 * y0\<^sup>2 + b\<^sup>2 * x0\<^sup>2))
   \<and> scale (ellipseTextConstraint \<lparr>width = 10, height = 5\<rparr> \<lparr>width = 4, height = 2\<rparr>)
       = 50 / sqrt (100 * 4 + 25 * 16)
   \<and> \<bar>scale (ellipseTextConstraint \<lparr>width = 10, height = 5\<rparr> \<lparr>width = 4, height = 2\<rparr>)
        - 50 / sqrt (100 * 4 + 25 * 16)\<bar> \<le> 1 / 10 ^ 9
   \<and> \<bar>scale (ellipseTextConstraint \<lparr>width = 10, height = 5\<rparr> \<lparr>width = 4, height = 2\<rparr>)
        - 1.767766952966\<bar> < 1 / 10 ^ 9"
proof -
  have formula: "scale (ellipseTextConstraint sb tb) =
     (let a = width sb / 2; b = height sb / 2; x0 = width tb / 2; y0 = height tb / 2
      in (a * b) / sqrt (a\<^sup>2 * y0\<^sup>2 + b\<^sup>2 * x0\<^sup>2))"
    using ellipseScale_half [of sb tb] by (simp add: ellipseTextConstraint_def Let_def)
  have example:
    "scale (ellipseTextConstraint \<lparr>width = 10, height = 5\<rparr> \<lparr>width = 4, height = 2\<rparr>)
       = 50 / sqrt (100 * 4 + 25 * 16)"
    by (simp add: ellipseTextConstraint_def ellipseScale_def)
  from formula example ellipse_example_literal show ?thesis
    by simp
qed

lemma ellipseScale_pos:
  assumes "0 < width sb" "0 < height sb" "0 < width tb" "0 < height tb"
  shows "0 < ellipseScale sb tb"
proof -
  have "0 < width sb * width sb * height tb * height tb"
    using assms by simp
  moreover have "0 < height sb * height sb * width tb * width tb"
    using assms by simp
  ultimately have "0 < width sb * width sb * height tb * height tb
     + height sb * height sb * width tb * width tb"
    by linarith
  then have "0 < sqrt (width sb * width sb * height tb * height tb
     + height sb * height sb * width tb * width tb)"
    by simp
  moreover have "0 < width sb * height sb"
    using assms by simp
  ultimately show ?thesis
    by (simp only: ellipseScale_def Let_def divide_pos_pos)
qed

lemma rect_pos_iff:
  assumes "0 < width tb" "0 < height tb"
  shows "0 < scale (rectTextConstraint sb tb) \<longleftrightarrow> 0 < width sb \<and> 0 < height sb"
  using assms by (auto simp add: rectTextConstraint_def Let_def zero_less_divide_iff)

text \<open>
  C4 as stated fails for the rounded rectangle: a radius of 2 shrinks a space of
  1 by 1 to a negative width and height, and the scale is negative.
\<close>

theorem roundedRect_scale_negative:
  "0 < width \<lparr>width = 1, height = 1\<rparr> \<and> 0 < height \<lparr>width = 1, height = 1\<rparr>
   \<and> (0 :: real) \<le> 2
   \<and> \<not> 0 < scale (roundedRectTextConstraint \<lparr>width = 1, height = 1\<rparr>
                    \<lparr>width = 1, height = 1\<rparr> 2)"
proof -
  have "sqrt 2 < 3 / 2"
    by (rule real_less_lsqrt) (simp_all add: power2_eq_square)
  then show ?thesis
    by (simp add: roundedRectTextConstraint_def rectTextConstraint_def)
qed

text \<open>
  C4, amended. For space and text bounds of positive width and height, the
  rectangle, ellipse and south-half-ellipse constraint functions return a positive
  scale, and the rounded-rectangle constraint function returns a positive scale
  exactly for the radii with \<open>radius * (2 - sqrt 2)\<close> smaller than both the width
  and the height of the space (radius 0 among them).
\<close>

theorem constraint_scale_positive:
  assumes "0 < width sb" "0 < height sb" "0 < width tb" "0 < height tb"
  shows "0 < scale (rectTextConstraint sb tb)
     \<and> 0 < scale (ellipseTextConstraint sb tb)
     \<and> 0 < scale (southHalfellipseTextConstraint sb tb)
     \<and> (0 < scale (roundedRectTextConstraint sb tb radius)
          \<longleftrightarrow> radius * (2 - sqrt 2) < min (width sb) (height sb))
     \<and> 0 < scale (roundedRectTextConstraint sb tb 0)"
proof -
  have "0 < scale (rectTextConstraint sb tb)"
    using assms by (simp add: rect_pos_iff)
  moreover have "0 < scale (ellipseTextConstraint sb tb)"
    using assms by (simp add: ellipseTextConstraint_def ellipseScale_pos)
  moreover have "0 < scale (southHalfellipseTextConstraint sb tb)"
    using assms by (simp add: southHalfellipseTextConstraint_def ellipseScale_pos)
  moreover have "0 < scale (roundedRectTextConstraint sb tb r)
          \<longleftrightarrow> r * (2 - sqrt 2) < min (width sb) (height sb)" for r
    using assms by (auto simp add: roundedRectTextConstraint_def rect_pos_iff)
  moreover have "0 * (2 - sqrt 2) < min (width sb) (height sb)"
    using assms by simp
  ultimately show ?thesis
    by blast
qed

theorem constraint_scale_positive_witness:
  "0 < width \<lparr>width = 10, height = 5\<rparr> \<and> 0 < height \<lparr>width = 10, height = 5\<rparr>
   \<and> 0 < width \<lparr>width = 4, height = 2\<rparr> \<and> 0 < height \<lparr>width = 4, height = 2\<rparr>
   \<and> 0 < scale (rectTextConstraint \<lparr>width = 10, height = 5\<rparr> \<lparr>width = 4, height = 2\<rparr>)
   \<and> 0 < scale (ellipseTextConstraint \<lparr>width = 10, height = 5\<rparr> \<lparr>width = 4, height = 2\<rparr>)
   \<and> 0 < scale (southHalfellipseTextConstraint \<lparr>width = 10, height = 5\<rparr>
                  \<lparr>width = 4, height = 2\<rparr>)
   \<and> 0 < scale (roundedRectTextConstraint \<lparr>width = 10, height = 5\<rparr>
                  \<lparr>width = 4, height = 2\<rparr> 0)"
  using constraint_scale_positive
    [where sb = "\<lparr>width = 10, height = 5\<rparr>" and tb = "\<lparr>width = 4, height = 2\<rparr>"
       and radius = 0]
  by simp

text \<open>
  C5. With radius 0 the rounded-rectangle constraint function returns what the
  rectangle constraint function returns on the same bounds.
\<close>

theorem roundedRect_radius_zero:
  "roundedRectTextConstraint sb tb 0 = rectTextConstraint sb tb"
  by (simp add: roundedRectTextConstraint_def rectTextConstraint_def)

subsection \<open>Estimated widths\<close>

lemma foldl_widths:
  "foldl (\<lambda>len c. len + widthOfChar c) z s = z + sum_list (map widthOfChar s)"
  by (induction s arbitrary: z) simp_all

lemma widthOfText_sum:
  "widthOfText s fs = fs * ((real (length s) - 1) / 12 + sum_list (map widthOfChar s))"
  by (simp add: widthOfText_def foldl_widths)

lemma widthOfChar_digit: "c \<in> set ''1234567890'' \<Longrightarrow> widthOfChar c = 4 / 11"
  by (auto simp add: widthOfChar_def)

lemma sum_digits:
  "set s \<subseteq> set ''1234567890''
     \<Longrightarrow> sum_list (map widthOfChar s) = real (length s) * (4 / 11)"
proof (induction s)
  case Nil
  then show ?case by simp
next
  case (Cons c s)
  then have "widthOfChar c = 4 / 11" "set s \<subseteq> set ''1234567890''"
    using widthOfChar_digit [of c] by simp_all
  with Cons.IH show ?case
    by (simp add: algebra_simps)
qed

text \<open>
  C6. For every font size the estimated width of \<open>111\<close> equals that of \<open>222\<close>, as
  do the estimated widths of any two strings of digits of equal length; and for
  every font size, a font size being a positive number (the module passes its
  reference font size), both differ from the estimated width of \<open>WWW\<close>.
\<close>

theorem widthOfText_digits:
  "widthOfText ''111'' fs = widthOfText ''222'' fs
   \<and> (set s \<subseteq> set ''1234567890'' \<and> set t \<subseteq> set ''1234567890'' \<and> length s = length t
        \<longrightarrow> widthOfText s fs = widthOfText t fs)
   \<and> (0 < fs \<longrightarrow> widthOfText ''111'' fs \<noteq> widthOfText ''WWW'' fs
                  \<and> widthOfText ''222'' fs \<noteq> widthOfText ''WWW'' fs)"
proof -
  have a: "widthOfText ''111'' fs = fs * (83 / 66)"
    by (simp add: widthOfText_def widthOfChar_def)
  have b: "widthOfText ''222'' fs = fs * (83 / 66)"
    by (simp add: widthOfText_def widthOfChar_def)
  have c: "widthOfText ''WWW'' fs = fs * (13 / 6)"
    by (simp add: widthOfText_def widthOfChar_def)
  have d: "widthOfText s fs = widthOfText t fs"
    if "set s \<subseteq> set ''1234567890''" "set t \<subseteq> set ''1234567890''" "length s = length t"
    using that by (simp only: widthOfText_sum sum_digits)
  from a b c d show ?thesis
    by auto
qed

theorem widthOfText_digits_witness:
  "set ''281'' \<subseteq> set ''1234567890'' \<and> set ''980'' \<subseteq> set ''1234567890''
   \<and> length ''281'' = length ''980''
   \<and> (0 :: real) < 12
   \<and> widthOfText ''281'' 12 = widthOfText ''980'' 12
   \<and> widthOfText ''111'' 12 = widthOfText ''222'' 12
   \<and> widthOfText ''111'' 12 \<noteq> widthOfText ''WWW'' 12
   \<and> widthOfText ''222'' 12 \<noteq> widthOfText ''WWW'' 12"
  using widthOfText_digits [where fs = 12 and s = "''281''" and t = "''980''"]
  by simp

subsection \<open>Layout from a definition\<close>

text \<open>
  C8. With no definition, \<open>layoutShieldTextFromDef\<close> is \<open>layoutShieldText\<close> with
  zero padding on all sides, the rectangle constraint and maximum font size 14.
  With a definition that has a \<open>maxFontSize\<close> of \<open>m\<close>, it is \<open>layoutShieldText\<close>
  with maximum font size \<open>min 14 m\<close>, which is at most 14 (without the field, the
  maximum is 14); so, the pixel ratio not being negative, the font size never
  exceeds 14 times the pixel ratio.
\<close>

theorem layoutShieldTextFromDef_defaults:
  "layoutShieldTextFromDef E str None b =
     layoutShieldText E str
       \<lparr>pad_top = Some 0, pad_bottom = Some 0, pad_left = Some 0, pad_right = Some 0\<rparr>
       b rectTextConstraint 14
   \<and> layoutShieldTextFromDef E str (Some (d\<lparr>maxFontSize := Some m\<rparr>)) b =
       layoutShieldText E str
         (case padding d of None \<Rightarrow> noPadding | Some p \<Rightarrow> p) b
         (case textLayoutConstraint d of None \<Rightarrow> rectTextConstraint | Some f \<Rightarrow> f)
         (min 14 m)
   \<and> layoutShieldTextFromDef E str (Some (d\<lparr>maxFontSize := None\<rparr>)) b =
       layoutShieldText E str
         (case padding d of None \<Rightarrow> noPadding | Some p \<Rightarrow> p) b
         (case textLayoutConstraint d of None \<Rightarrow> rectTextConstraint | Some f \<Rightarrow> f)
         14
   \<and> min 14 m \<le> (14 :: real)
   \<and> (0 \<le> pixelRatio E \<longrightarrow>
        fontPx (layoutShieldTextFromDef E str (Some (d\<lparr>maxFontSize := Some m\<rparr>)) b)
          \<le> 14 * pixelRatio E)"
proof -
  have none: "layoutShieldTextFromDef E str None b =
     layoutShieldText E str
       \<lparr>pad_top = Some 0, pad_bottom = Some 0, pad_left = Some 0, pad_right = Some 0\<rparr>
       b rectTextConstraint 14"
    by (simp add: layoutShieldTextFromDef_def defaultDefForLayout_def)
  have lower: "layoutShieldTextFromDef E str (Some (d\<lparr>maxFontSize := Some m\<rparr>)) b =
       layoutShieldText E str
         (case padding d of None \<Rightarrow> noPadding | Some p \<Rightarrow> p) b
         (case textLayoutConstraint d of None \<Rightarrow> rectTextConstraint | Some f \<Rightarrow> f)
         (min 14 m)"
    by (simp add: layoutShieldTextFromDef_def)
  have absent: "layoutShieldTextFromDef E str (Some (d\<lparr>maxFontSize := None\<rparr>)) b =
       layoutShieldText E str
         (case padding d of None \<Rightarrow> noPadding | Some p \<Rightarrow> p) b
         (case textLayoutConstraint d of None \<Rightarrow> rectTextConstraint | Some f \<Rightarrow> f)
         14"
    by (simp add: layoutShieldTextFromDef_def)
  have ceiling: "fontPx (layoutShieldTextFromDef E str (Some (d\<lparr>maxFontSize := Some m\<rparr>)) b)
          \<le> 14 * pixelRatio E" if "0 \<le> pixelRatio E"
  proof -
    have "fontPx (layoutShieldTextFromDef E str (Some (d\<lparr>maxFontSize := Some m\<rparr>)) b)
            \<le> min 14 m * pixelRatio E"
      unfolding lower by (simp only: layoutShieldText_fontPx min.cobounded1)
    also have "\<dots> \<le> 14 * pixelRatio E"
      using that by (intro mult_right_mono) simp_all
    finally show ?thesis .
  qed
  from none lower absent ceiling show ?thesis
    by simp
qed

theorem layoutShieldTextFromDef_defaults_witness:
  "0 \<le> pixelRatio env1
   \<and> layoutShieldTextFromDef env1 ''1''
       (Some \<lparr>padding = None, textLayoutConstraint = None, maxFontSize = Some 20\<rparr>)
       \<lparr>width = 40, height = 40\<rparr>
     = layoutShieldText env1 ''1'' noPadding \<lparr>width = 40, height = 40\<rparr> rectTextConstraint 14
   \<and> fontPx (layoutShieldTextFromDef env1 ''1''
       (Some \<lparr>padding = None, textLayoutConstraint = None, maxFontSize = Some 20\<rparr>)
       \<lparr>width = 40, height = 40\<rparr>) \<le> 14 * pixelRatio env1"
proof -
  have ratio: "0 \<le> pixelRatio env1"
    by (simp add: env1_def)
  from layoutShieldTextFromDef_defaults
    [where E = env1 and str = "''1''" and b = "\<lparr>width = 40, height = 40\<rparr>"
       and d = "\<lparr>padding = None, textLayoutConstraint = None, maxFontSize = None\<rparr>"
       and m = 20]
  have "layoutShieldTextFromDef env1 ''1''
       (Some \<lparr>padding = None, textLayoutConstraint = None, maxFontSize = Some 20\<rparr>)
       \<lparr>width = 40, height = 40\<rparr>
     = layoutShieldText env1 ''1'' noPadding \<lparr>width = 40, height = 40\<rparr> rectTextConstraint 14"
    and "0 \<le> pixelRatio env1 \<longrightarrow>
     fontPx (layoutShieldTextFromDef env1 ''1''
       (Some \<lparr>padding = None, textLayoutConstraint = None, maxFontSize = Some 20\<rparr>)
       \<lparr>width = 40, height = 40\<rparr>) \<le> 14 * pixelRatio env1"
    by (simp_all (no_asm_use)) blast+
  with ratio show ?thesis
    by blast
qed

subsection \<open>Drawing calls\<close>

lemma drawBannerText_calls:
  "map fst (calls (drawBannerText E ctx str i)) =
     map fst (calls ctx) @
       [FillText str
          (xBaseline (layoutShieldTextFromDef E str None
             \<lparr>width = width (canvas ctx), height = bannerSizeH E - bannerPadding E\<rparr>))
          (yBaseline (layoutShieldTextFromDef E str None
             \<lparr>width = width (canvas ctx), height = bannerSizeH E - bannerPadding E\<rparr>)
           + i * bannerSizeH E - bannerPadding E + topPadding E)]"
  by (simp add: drawBannerText_def Let_def fillText_def)

lemma drawBannerHaloText_calls:
  "map fst (calls (drawBannerHaloText E ctx str i)) =
     map fst (calls ctx) @
       [StrokeText str
          (xBaseline (layoutShieldTextFromDef E str None
             \<lparr>width = width (canvas ctx), height = bannerSizeH E - bannerPadding E\<rparr>))
          (yBaseline (layoutShieldTextFromDef E str None
             \<lparr>width = width (canvas ctx), height = bannerSizeH E - bannerPadding E\<rparr>)
           + i * bannerSizeH E - bannerPadding E + topPadding E)]"
  by (simp add: drawBannerHaloText_def Let_def strokeText_def setShadowColor_def
      setShadowBlur_def setLineWidth_def)

lemma last_call: "map fst cs = pre @ [c] \<Longrightarrow> fst (last cs) = c"
  by (metis last_map last_snoc map_is_Nil_conv snoc_eq_iff_butlast)

text \<open>
  C7. \<open>drawBannerText\<close> and \<open>drawBannerHaloText\<close> each add one drawing call, at the
  layout's \<open>x\<close> and at the layout's baseline plus
  \<open>i * bannerSizeH - bannerPadding + topPadding\<close>, where the layout is the one
  computed with no definition for an area as wide as the canvas and
  \<open>bannerSizeH - bannerPadding\<close> high. So for \<open>i = 0\<close> the drawn baseline is the
  layout's plus \<open>- bannerPadding + topPadding\<close>, and one more in \<open>i\<close> adds one
  \<open>bannerSizeH\<close>.
\<close>

theorem drawBanner_baseline:
  "(let L = layoutShieldTextFromDef E str None
             \<lparr>width = width (canvas ctx), height = bannerSizeH E - bannerPadding E\<rparr>;
        drawn = (\<lambda>i. fst (last (calls (drawBannerText E ctx str i))));
        drawnHalo = (\<lambda>i. fst (last (calls (drawBannerHaloText E ctx str i))))
    in map fst (calls (drawBannerText E ctx str i)) =
         map fst (calls ctx) @
           [FillText str (xBaseline L)
              (yBaseline L + i * bannerSizeH E - bannerPadding E + topPadding E)]
     \<and> map fst (calls (drawBannerHaloText E ctx str i)) =
         map fst (calls ctx) @
           [StrokeText str (xBaseline L)
              (yBaseline L + i * bannerSizeH E - bannerPadding E + topPadding E)]
     \<and> callY (drawn 0) - yBaseline L = - bannerPadding E + topPadding E
     \<and> callY (drawnHalo 0) - yBaseline L = - bannerPadding E + topPadding E
     \<and> callY (drawn (i + 1)) = callY (drawn i) + bannerSizeH E
     \<and> callY (drawnHalo (i + 1)) = callY (drawnHalo i) + bannerSizeH E)"
proof -
  have fill: "fst (last (calls (drawBannerText E ctx str j))) =
      FillText str
          (xBaseline (layoutShieldTextFromDef E str None
             \<lparr>width = width (canvas ctx), height = bannerSizeH E - bannerPadding E\<rparr>))
          (yBaseline (layoutShieldTextFromDef E str None
             \<lparr>width = width (canvas ctx), height = bannerSizeH E - bannerPadding E\<rparr>)
           + j * bannerSizeH E - bannerPadding E + topPadding E)" for j
    by (rule last_call [OF drawBannerText_calls])
  have halo: "fst (last (calls (drawBannerHaloText E ctx str j))) =
      StrokeText str
          (xBaseline (layoutShieldTextFromDef E str None
             \<lparr>width = width (canvas ctx), height = bannerSizeH E - bannerPadding E\<rparr>))
          (yBaseline (layoutShieldTextFromDef E str None
             \<lparr>width = width (canvas ctx), height = bannerSizeH E - bannerPadding E\<rparr>)
           + j * bannerSizeH E - bannerPadding E + topPadding E)" for j
    by (rule last_call [OF drawBannerHaloText_calls])
  show ?thesis
    unfolding Let_def fill halo
    by (simp add: drawBannerText_calls drawBannerHaloText_calls algebra_simps)
qed

text \<open>
  C9. \<open>drawShieldHaloText\<close> adds one \<open>strokeText\<close> call, at the layout's position,
  made with the font of the layout's font size, the shadow colour equal to the
  stroke colour the context had, which is still its stroke colour, and shadow
  blur 0. Of the two assignments of \<open>null\<close> that follow, the one to \<open>shadowBlur\<close>
  leaves it 0 and the one to \<open>shadowColor\<close> is ignored: after the call the shadow
  colour is not reset, it is the stroke colour. On a context with a white stroke
  style and the transparent shadow colour of a new context, the shadow colour
  after the call is white.
\<close>

theorem drawShieldHaloText_shadow_kept:
  "shadowColor (drawShieldHaloText E ctx str L) = strokeStyle ctx
   \<and> shadowBlur (drawShieldHaloText E ctx str L) = 0
   \<and> calls (drawShieldHaloText E ctx str L) =
       calls ctx @
         [(StrokeText str (xBaseline L) (yBaseline L),
           \<lparr>textAlign = ''center'', textBaseline = ''alphabetic'',
            font = shieldFont E (fontPx L),
            fillStyle = fillStyle ctx, strokeStyle = strokeStyle ctx,
            shadowColor = strokeStyle ctx, shadowBlur = 0,
            lineWidth = (if 2 * pixelRatio E \<le> 0 then lineWidth ctx
                         else 2 * pixelRatio E)\<rparr>)]
   \<and> shadowColor ctx0 = ''rgba(0, 0, 0, 0)''
   \<and> shadowColor (drawShieldHaloText env1 ctx0 ''95'' layout0) = ''#ffffff''
   \<and> shadowColor (drawShieldHaloText env1 ctx0 ''95'' layout0) \<noteq> shadowColor ctx0"
proof -
  have after: "shadowColor (drawShieldHaloText E' c s' L') = strokeStyle c" for E' c s' L'
    by (simp add: drawShieldHaloText_def Let_def strokeText_def setShadowColor_def
        setShadowBlur_def setLineWidth_def)
  have blur: "shadowBlur (drawShieldHaloText E ctx str L) = 0"
    by (simp add: drawShieldHaloText_def Let_def strokeText_def setShadowColor_def
        setShadowBlur_def setLineWidth_def)
  have drawn: "calls (drawShieldHaloText E ctx str L) =
       calls ctx @
         [(StrokeText str (xBaseline L) (yBaseline L),
           \<lparr>textAlign = ''center'', textBaseline = ''alphabetic'',
            font = shieldFont E (fontPx L),
            fillStyle = fillStyle ctx, strokeStyle = strokeStyle ctx,
            shadowColor = strokeStyle ctx, shadowBlur = 0,
            lineWidth = (if 2 * pixelRatio E \<le> 0 then lineWidth ctx
                         else 2 * pixelRatio E)\<rparr>)]"
    by (simp add: drawShieldHaloText_def Let_def strokeText_def setShadowColor_def
        setShadowBlur_def setLineWidth_def ctx_props.truncate_def)
  have start: "shadowColor ctx0 = ''rgba(0, 0, 0, 0)''" and stroke: "strokeStyle ctx0 = ''#ffffff''"
    by (simp_all add: ctx0_def)
  from after [of E ctx str L] after [of env1 ctx0 "''95''" layout0] blur drawn start stroke
  show ?thesis
    by simp
qed

end
